theory Spec2Isabelle
  imports Main "HOL-Library.Log_Nat"
begin

section \<open>Library circulation: items, users, holds, loans and the coordinator\<close>

text \<open>
  The Python classes are embedded as records; a method that mutates its object takes the
  record and returns the result of the call together with the record as the call leaves
  it. An exception is the \<open>Inl\<close> branch of the result, and the record returned next to it
  is the object as it stands when the exception leaves the method, so that an assignment
  made before a \<open>raise\<close> remains visible. Output written with \<open>print\<close> is not part of the model.
\<close>

subsection \<open>Exceptions\<close>

datatype error = ValueError string | KeyError string | RuntimeError string

subsection \<open>Strings\<close>

text \<open>
  Strings are lists of characters and the string methods are modelled on the ASCII
  range: the white space of \<open>str.strip\<close> and \<open>str.split\<close> is the code points 9 to 13 and
  28 to 32, the letters that \<open>upper\<close>, \<open>lower\<close> and \<open>title\<close> change are a to z and A to Z,
  and \<open>isdigit\<close> holds on 0 to 9.
\<close>

definition py_isspace :: "char \<Rightarrow> bool" where
  "py_isspace c = (let n = (of_char c :: nat) in (9 \<le> n \<and> n \<le> 13) \<or> (28 \<le> n \<and> n \<le> 32))"

definition py_strip :: "string \<Rightarrow> string" where
  "py_strip s = rev (dropWhile py_isspace (rev (dropWhile py_isspace s)))"

definition lower_letters :: string where
  "lower_letters = ''abcdefghijklmnopqrstuvwxyz''"

definition upper_letters :: string where
  "upper_letters = ''ABCDEFGHIJKLMNOPQRSTUVWXYZ''"

definition py_upper_char :: "char \<Rightarrow> char" where
  "py_upper_char c = (case map_of (zip lower_letters upper_letters) c of Some u \<Rightarrow> u | None \<Rightarrow> c)"

definition py_lower_char :: "char \<Rightarrow> char" where
  "py_lower_char c = (case map_of (zip upper_letters lower_letters) c of Some l \<Rightarrow> l | None \<Rightarrow> c)"

definition py_upper :: "string \<Rightarrow> string" where
  "py_upper s = map py_upper_char s"

definition py_lower :: "string \<Rightarrow> string" where
  "py_lower s = map py_lower_char s"

definition py_isalpha :: "char \<Rightarrow> bool" where
  "py_isalpha c = (c \<in> set lower_letters \<or> c \<in> set upper_letters)"

definition py_isdigit :: "char \<Rightarrow> bool" where
  "py_isdigit c = (let n = (of_char c :: nat) in 48 \<le> n \<and> n \<le> 57)"

definition digit_val :: "char \<Rightarrow> int" where
  "digit_val c = int (of_char c) - 48"

text \<open>\<open>s.split()\<close>: the maximal runs of characters that are not white space; the first
  argument is the run being read, reversed.\<close>

fun py_split_from :: "string \<Rightarrow> string \<Rightarrow> string list" where
  "py_split_from w [] = (if w = [] then [] else [rev w])"
| "py_split_from w (c # cs) =
     (if py_isspace c then (if w = [] then py_split_from [] cs else rev w # py_split_from [] cs)
      else py_split_from (c # w) cs)"

definition py_split :: "string \<Rightarrow> string list" where
  "py_split s = py_split_from [] s"

fun py_join_space :: "string list \<Rightarrow> string" where
  "py_join_space [] = []"
| "py_join_space [w] = w"
| "py_join_space (w # ws) = w @ '' '' @ py_join_space ws"

text \<open>\<open>s.title()\<close>: a letter that follows a letter is lowered, any other letter is raised;
  the flag says whether the previous character was a letter.\<close>

fun py_title_from :: "bool \<Rightarrow> string \<Rightarrow> string" where
  "py_title_from prev [] = []"
| "py_title_from prev (c # cs) =
     (if py_isalpha c then (if prev then py_lower_char c else py_upper_char c) # py_title_from True cs
      else c # py_title_from False cs)"

definition py_title :: "string \<Rightarrow> string" where
  "py_title s = py_title_from False s"

subsection \<open>Dates\<close>

text \<open>
  A \<open>datetime.date\<close> is modelled by its proleptic Gregorian ordinal (day 1 is 0001-01-01),
  as an unbounded integer: dates are compared as ordinals, \<open>d + timedelta(days=n)\<close> is
  \<open>d + n\<close> and \<open>(a - b).days\<close> is \<open>a - b\<close>. The upper bound 9999-12-31 of the Python type is
  not modelled. \<open>ymd2ord\<close> is the ordinal of a calendar date, as \<open>datetime\<close> computes it.
\<close>

type_synonym date = int

definition is_leap :: "int \<Rightarrow> bool" where
  "is_leap y = (y mod 4 = 0 \<and> (y mod 100 \<noteq> 0 \<or> y mod 400 = 0))"

definition days_before_year :: "int \<Rightarrow> int" where
  "days_before_year year = (let y = year - 1 in y * 365 + y div 4 - y div 100 + y div 400)"

definition days_before_month_table :: "int list" where
  "days_before_month_table = [0, 31, 59, 90, 120, 151, 181, 212, 243, 273, 304, 334]"

definition days_before_month :: "int \<Rightarrow> nat \<Rightarrow> int" where
  "days_before_month year month =
     days_before_month_table ! (month - 1) + (if month > 2 \<and> is_leap year then 1 else 0)"

definition ymd2ord :: "int \<Rightarrow> nat \<Rightarrow> int \<Rightarrow> date" where
  "ymd2ord year month day = days_before_year year + days_before_month year month + day"

subsection \<open>The functions of \<open>project_1_functions.py\<close>\<close>

definition validate_user_role :: "string \<Rightarrow> bool" where
  "validate_user_role role \<longleftrightarrow> role \<in> {''Student'', ''Faculty'', ''Staff'', ''Admin'', ''Public''}"

definition normalize_name :: "string \<Rightarrow> string" where
  "normalize_name name = py_title (py_join_space (py_split (py_strip name)))"

text \<open>The loop of the ISBN-10 branch: position, running total, remaining characters. A
  \<open>return False\<close> inside the loop is the result \<open>False\<close>.\<close>

fun isbn10_loop :: "nat \<Rightarrow> int \<Rightarrow> string \<Rightarrow> bool" where
  "isbn10_loop i tot [] = (tot mod 11 = 0)"
| "isbn10_loop i tot (ch # cs) =
     (if ch = CHR ''X'' then
        (if i \<noteq> 9 then False else isbn10_loop (i + 1) (tot + (10 - int i) * 10) cs)
      else if \<not> py_isdigit ch then False
      else isbn10_loop (i + 1) (tot + (10 - int i) * digit_val ch) cs)"

fun isbn13_loop :: "nat \<Rightarrow> int \<Rightarrow> string \<Rightarrow> int" where
  "isbn13_loop i tot [] = tot"
| "isbn13_loop i tot (d # ds) =
     isbn13_loop (i + 1) (tot + (if i mod 2 = 0 then 1 else 3) * digit_val d) ds"

definition validate_isbn :: "string \<Rightarrow> bool" where
  "validate_isbn isbn =
     (let s = py_upper (filter (\<lambda>c. c \<noteq> CHR '' '') (filter (\<lambda>c. c \<noteq> CHR ''-'') isbn)) in
      if length s = 10 then isbn10_loop 0 0 s
      else if length s = 13 \<and> list_all py_isdigit s then isbn13_loop 0 0 s mod 10 = 0
      else False)"

definition calculate_due_date :: "date \<Rightarrow> string \<Rightarrow> date" where
  "calculate_due_date start role =
     (let days = (if role \<in> {''Student'', ''Public''} then 14 else 28) in start + days)"

subsection \<open>Items (\<open>libraryItem.py\<close>)\<close>

text \<open>The class of an item is its \<open>kind\<close>; a \<open>Book\<close> carries its genre.\<close>

datatype item_kind = Generic | Book "string option" | Journal | DVD | EBook

record library_item =
  item_id :: string
  title :: string
  creators :: "string list"
  tags :: "string set"
  available_copies :: int
  total_copies :: int
  call_number :: "string option"
  isbn :: "string option"
  kind :: item_kind

text \<open>The constructors' test \<open>not s or not s.strip()\<close>.\<close>

definition blank :: "string \<Rightarrow> bool" where
  "blank s \<longleftrightarrow> s = [] \<or> py_strip s = []"

text \<open>The assignments of \<open>LibraryItem.__init__\<close>, and the constructor: its checks, then the
  assignments. The test \<open>if isbn and not validate_isbn(isbn)\<close> passes over \<open>None\<close> and over
  the empty string.\<close>

definition init_item ::
  "item_kind \<Rightarrow> string \<Rightarrow> string \<Rightarrow> string list \<Rightarrow> string set \<Rightarrow> int \<Rightarrow> string option \<Rightarrow>
   string option \<Rightarrow> library_item" where
  "init_item k iid ttl crs tgs n cn isb =
     \<lparr> item_id = py_strip iid,
       title = py_strip ttl,
       creators = map normalize_name crs,
       tags = tgs,
       available_copies = n,
       total_copies = n,
       call_number = (case cn of None \<Rightarrow> None
                      | Some s \<Rightarrow> if s = [] then None else Some (py_strip s)),
       isbn = isb,
       kind = k \<rparr>"

definition new_item ::
  "item_kind \<Rightarrow> string \<Rightarrow> string \<Rightarrow> string list \<Rightarrow> string set \<Rightarrow> int \<Rightarrow> string option \<Rightarrow>
   string option \<Rightarrow> error + library_item" where
  "new_item k iid ttl crs tgs n cn isb =
     (if blank iid then Inl (ValueError ''Item ID cannot be empty'')
      else if blank ttl then Inl (ValueError ''Title cannot be empty'')
      else if n < 0 then Inl (ValueError ''Available copies cannot be negative'')
      else case isb of
             None \<Rightarrow> Inr (init_item k iid ttl crs tgs n cn isb)
           | Some s \<Rightarrow>
               if s \<noteq> [] \<and> \<not> validate_isbn s then Inl (ValueError (''Invalid ISBN: '' @ s))
               else Inr (init_item k iid ttl crs tgs n cn isb))"

definition get_item_type :: "library_item \<Rightarrow> string" where
  "get_item_type it =
     (case kind it of Generic \<Rightarrow> ''Generic Item'' | Book g \<Rightarrow> ''Book'' | Journal \<Rightarrow> ''Journal''
      | DVD \<Rightarrow> ''DVD'' | EBook \<Rightarrow> ''EBook'')"

definition item_calculate_due_date :: "library_item \<Rightarrow> date \<Rightarrow> string \<Rightarrow> date" where
  "item_calculate_due_date it checkout_date user_role =
     (case kind it of
        Journal \<Rightarrow> (let days = (if user_role \<in> {''Student'', ''Public''} then 7 else 14)
                    in checkout_date + days)
      | DVD \<Rightarrow> checkout_date + 7
      | EBook \<Rightarrow> checkout_date
      | _ \<Rightarrow> calculate_due_date checkout_date user_role)"

definition is_available :: "library_item \<Rightarrow> bool" where
  "is_available it \<longleftrightarrow> available_copies it > 0"

definition checkout_copy :: "library_item \<Rightarrow> (error + unit) \<times> library_item" where
  "checkout_copy it =
     (case kind it of
        EBook \<Rightarrow> (Inr (), it)
      | _ \<Rightarrow>
          if available_copies it \<le> 0
          then (Inl (RuntimeError (''Item '' @ item_id it @ '' has no available copies'')), it)
          else (Inr (), it\<lparr>available_copies := available_copies it - 1\<rparr>))"

definition return_copy :: "library_item \<Rightarrow> (error + unit) \<times> library_item" where
  "return_copy it =
     (if available_copies it \<ge> total_copies it
      then (Inl (RuntimeError (''All copies of '' @ item_id it @ '' are already returned'')), it)
      else (Inr (), it\<lparr>available_copies := available_copies it + 1\<rparr>))"

definition add_tag :: "library_item \<Rightarrow> string \<Rightarrow> library_item" where
  "add_tag it tag =
     (if tag \<noteq> [] \<and> py_strip tag \<noteq> [] then it\<lparr>tags := insert (py_lower (py_strip tag)) (tags it)\<rparr>
      else it)"

definition remove_tag :: "library_item \<Rightarrow> string \<Rightarrow> library_item" where
  "remove_tag it tag = it\<lparr>tags := tags it - {py_lower (py_strip tag)}\<rparr>"

definition has_tag :: "library_item \<Rightarrow> string \<Rightarrow> bool" where
  "has_tag it tag \<longleftrightarrow> py_lower (py_strip tag) \<in> tags it"

text \<open>The calls that change an item, and the item after a sequence of such calls; a call
  that raises leaves the item as \<open>checkout_copy\<close> or \<open>return_copy\<close> left it.\<close>

datatype item_op = CheckoutCopy | ReturnCopy | AddTag string | RemoveTag string

fun item_step :: "library_item \<Rightarrow> item_op \<Rightarrow> library_item" where
  "item_step it CheckoutCopy = snd (checkout_copy it)"
| "item_step it ReturnCopy = snd (return_copy it)"
| "item_step it (AddTag t) = add_tag it t"
| "item_step it (RemoveTag t) = remove_tag it t"

definition item_run :: "library_item \<Rightarrow> item_op list \<Rightarrow> library_item" where
  "item_run it ops = foldl item_step it ops"

definition copies_in_range :: "library_item \<Rightarrow> bool" where
  "copies_in_range it \<longleftrightarrow> 0 \<le> available_copies it \<and> available_copies it \<le> total_copies it"

subsection \<open>Floats\<close>

text \<open>
  A finite Python \<open>float\<close> is modelled by its exact value, a rational number. Every
  arithmetic result is rounded to binary64 by \<open>fl\<close>: to the nearest number with a 53-bit
  significand, a tie going to the even significand, with the exponent held at -1022 for
  the subnormal range. Infinities, NaN, the sign of zero and overflow are not modelled.
\<close>

type_synonym pyfloat = rat

definition round_half_even :: "rat \<Rightarrow> int" where
  "round_half_even q =
     (let f = \<lfloor>q\<rfloor>; r = q - of_int f in
      if r < 1 / 2 then f else if 1 / 2 < r then f + 1 else if even f then f else f + 1)"

definition pow2 :: "int \<Rightarrow> rat" where
  "pow2 e = (if 0 \<le> e then 2 ^ nat e else 1 / 2 ^ nat (- e))"

text \<open>\<open>ilog2 x\<close> is the exponent \<open>e\<close> with \<open>2 ^ e \<le> x < 2 ^ (e + 1)\<close>, for positive \<open>x\<close>.\<close>

definition ilog2 :: "rat \<Rightarrow> int" where
  "ilog2 x = (if 1 \<le> x then bitlen \<lfloor>x\<rfloor> - 1 else - bitlen (\<lceil>1 / x\<rceil> - 1))"

definition fl :: "rat \<Rightarrow> pyfloat" where
  "fl x =
     (if x = 0 then 0
      else let e = max (ilog2 \<bar>x\<bar>) (- 1022) - 52
           in of_int (round_half_even (x / pow2 e)) * pow2 e)"

definition float_of_int :: "int \<Rightarrow> pyfloat" where
  "float_of_int n = fl (of_int n)"

definition float_mul :: "pyfloat \<Rightarrow> pyfloat \<Rightarrow> pyfloat" where
  "float_mul a b = fl (a * b)"

definition float_add :: "pyfloat \<Rightarrow> pyfloat \<Rightarrow> pyfloat" where
  "float_add a b = fl (a + b)"

definition float_sub :: "pyfloat \<Rightarrow> pyfloat \<Rightarrow> pyfloat" where
  "float_sub a b = fl (a - b)"

text \<open>\<open>round(x, ndigits)\<close> on a float, for \<open>ndigits \<ge> 0\<close>: the exact value of \<open>x\<close> is rounded
  to \<open>ndigits\<close> decimal places, a tie going to the even digit, and the decimal result is
  converted back to the nearest float.\<close>

definition py_round :: "pyfloat \<Rightarrow> nat \<Rightarrow> pyfloat" where
  "py_round x ndigits = fl (of_int (round_half_even (x * 10 ^ ndigits)) / 10 ^ ndigits)"

definition compute_overdue_fine :: "date \<Rightarrow> date \<Rightarrow> pyfloat \<Rightarrow> pyfloat" where
  "compute_overdue_fine due_date return_date daily_rate =
     (if return_date \<le> due_date then 0
      else let days_late = return_date - due_date
           in py_round (float_mul (float_of_int days_late) daily_rate) 2)"

subsection \<open>Users (\<open>User.py\<close>)\<close>

record user =
  user_id :: string
  name :: string
  role :: string
  active_loan_ids :: "string list"
  total_fines :: pyfloat

definition new_user :: "string \<Rightarrow> string \<Rightarrow> string \<Rightarrow> error + user" where
  "new_user uid nm rl =
     (if blank uid then Inl (ValueError ''User ID cannot be empty'')
      else if \<not> validate_user_role rl then
        Inl (ValueError (''Invalid role: '' @ rl @
                         ''. Must be Student, Faculty, Staff, Admin, or Public''))
      else Inr \<lparr> user_id = py_strip uid, name = normalize_name nm, role = rl,
                 active_loan_ids = [], total_fines = 0 \<rparr>)"

definition get_loan_period :: "user \<Rightarrow> int" where
  "get_loan_period u = (if role u \<in> {''Student'', ''Public''} then 14 else 28)"

definition user_calculate_due_date :: "user \<Rightarrow> date \<Rightarrow> date" where
  "user_calculate_due_date u checkout_date = calculate_due_date checkout_date (role u)"

definition add_loan :: "user \<Rightarrow> string \<Rightarrow> user" where
  "add_loan u lid =
     (if lid \<notin> set (active_loan_ids u) then u\<lparr>active_loan_ids := active_loan_ids u @ [lid]\<rparr>
      else u)"

definition remove_loan :: "user \<Rightarrow> string \<Rightarrow> (error + unit) \<times> user" where
  "remove_loan u lid =
     (if lid \<notin> set (active_loan_ids u)
      then (Inl (ValueError (''Loan '' @ lid @ '' not found in active loans'')), u)
      else (Inr (), u\<lparr>active_loan_ids := remove1 lid (active_loan_ids u)\<rparr>))"

definition add_fine :: "user \<Rightarrow> pyfloat \<Rightarrow> (error + unit) \<times> user" where
  "add_fine u amount =
     (if amount < 0 then (Inl (ValueError ''Fine amount cannot be negative''), u)
      else (Inr (), u\<lparr>total_fines := float_add (total_fines u) amount\<rparr>))"

definition pay_fine :: "user \<Rightarrow> pyfloat \<Rightarrow> (error + pyfloat) \<times> user" where
  "pay_fine u amount =
     (if amount < 0 then (Inl (ValueError ''Payment amount cannot be negative''), u)
      else let t = max 0 (float_sub (total_fines u) amount)
           in (Inr t, u\<lparr>total_fines := t\<rparr>))"

subsection \<open>Holds (\<open>Hold.py\<close>)\<close>

record hold =
  hold_id :: string
  hold_user_id :: string
  hold_item_id :: string
  placed_on :: date
  expires_on :: date
  notified :: bool
  fulfilled :: bool
  cancelled :: bool

definition new_hold ::
  "string \<Rightarrow> string \<Rightarrow> string \<Rightarrow> date \<Rightarrow> date \<Rightarrow> bool \<Rightarrow> error + hold" where
  "new_hold hid uid iid placed expires notif =
     (if blank hid then Inl (ValueError ''Hold ID cannot be empty'')
      else if blank uid then Inl (ValueError ''User ID cannot be empty'')
      else if blank iid then Inl (ValueError ''Item ID cannot be empty'')
      else if expires < placed then Inl (ValueError ''Expiry date cannot be before placement date'')
      else Inr \<lparr> hold_id = py_strip hid, hold_user_id = py_strip uid, hold_item_id = py_strip iid,
                 placed_on = placed, expires_on = expires, notified = notif,
                 fulfilled = False, cancelled = False \<rparr>)"

definition hold_is_active :: "hold \<Rightarrow> date \<Rightarrow> bool" where
  "hold_is_active h today \<longleftrightarrow> \<not> fulfilled h \<and> \<not> cancelled h \<and> today \<le> expires_on h"

definition is_expired :: "hold \<Rightarrow> date \<Rightarrow> bool" where
  "is_expired h today \<longleftrightarrow> \<not> fulfilled h \<and> today > expires_on h"

definition notify :: "hold \<Rightarrow> (error + unit) \<times> hold" where
  "notify h =
     (if fulfilled h \<or> cancelled h
      then (Inl (RuntimeError (''Hold '' @ hold_id h @ '' is not active'')), h)
      else (Inr (), h\<lparr>notified := True\<rparr>))"

definition fulfill :: "hold \<Rightarrow> (error + unit) \<times> hold" where
  "fulfill h =
     (if cancelled h then (Inl (RuntimeError (''Hold '' @ hold_id h @ '' is cancelled'')), h)
      else (Inr (), h\<lparr>fulfilled := True\<rparr>))"

definition cancel :: "hold \<Rightarrow> (error + unit) \<times> hold" where
  "cancel h =
     (if fulfilled h then (Inl (RuntimeError ''Cannot cancel fulfilled hold''), h)
      else (Inr (), h\<lparr>cancelled := True\<rparr>))"

definition days_until_expiry :: "hold \<Rightarrow> date \<Rightarrow> int" where
  "days_until_expiry h today = (if fulfilled h \<or> cancelled h then 0 else expires_on h - today)"

definition extend_hold :: "hold \<Rightarrow> int \<Rightarrow> date \<Rightarrow> (error + date) \<times> hold" where
  "extend_hold h additional_days today =
     (if \<not> hold_is_active h today then (Inl (RuntimeError ''Cannot extend inactive hold''), h)
      else if additional_days < 1 then (Inl (ValueError ''Extension must be at least 1 day''), h)
      else let e = expires_on h + additional_days in (Inr e, h\<lparr>expires_on := e\<rparr>))"

text \<open>The calls that change a hold, and the hold after a sequence of them.\<close>

datatype hold_op = Notify | Fulfill | Cancel | Extend int date

fun hold_step :: "hold \<Rightarrow> hold_op \<Rightarrow> hold" where
  "hold_step h Notify = snd (notify h)"
| "hold_step h Fulfill = snd (fulfill h)"
| "hold_step h Cancel = snd (cancel h)"
| "hold_step h (Extend n today) = snd (extend_hold h n today)"

definition hold_run :: "hold \<Rightarrow> hold_op list \<Rightarrow> hold" where
  "hold_run h ops = foldl hold_step h ops"

subsection \<open>Loans (\<open>loan.py\<close>)\<close>

record loan =
  loan_id :: string
  loan_user_id :: string
  loan_item_id :: string
  due :: date
  returned_on :: "date option"
  renewals :: int

definition new_loan ::
  "string \<Rightarrow> string \<Rightarrow> string \<Rightarrow> date \<Rightarrow> date option \<Rightarrow> int \<Rightarrow> error + loan" where
  "new_loan lid uid iid d ret ren =
     (if blank lid then Inl (ValueError ''Loan ID cannot be empty'')
      else if blank uid then Inl (ValueError ''User ID cannot be empty'')
      else if blank iid then Inl (ValueError ''Item ID cannot be empty'')
      else if ren < 0 then Inl (ValueError ''Renewals cannot be negative'')
      else Inr \<lparr> loan_id = py_strip lid, loan_user_id = py_strip uid, loan_item_id = py_strip iid,
                 due = d, returned_on = ret, renewals = ren \<rparr>)"

definition loan_is_active :: "loan \<Rightarrow> bool" where
  "loan_is_active l \<longleftrightarrow> returned_on l = None"

definition is_overdue :: "loan \<Rightarrow> date \<Rightarrow> bool" where
  "is_overdue l today \<longleftrightarrow> loan_is_active l \<and> today > due l"

definition days_overdue :: "loan \<Rightarrow> date \<Rightarrow> int" where
  "days_overdue l today = (if \<not> is_overdue l today then 0 else today - due l)"

definition days_until_due :: "loan \<Rightarrow> date \<Rightarrow> int" where
  "days_until_due l today = (if \<not> loan_is_active l then 0 else due l - today)"

definition calculate_fine :: "loan \<Rightarrow> date \<Rightarrow> pyfloat \<Rightarrow> pyfloat" where
  "calculate_fine l return_date daily_rate = compute_overdue_fine (due l) return_date daily_rate"

text \<open>\<open>Loan.return_item\<close> assigns \<open>_returned_on\<close> and then calls \<open>item.return_copy()\<close>; when
  that call raises, the exception leaves \<open>return_item\<close> with the assignment made.\<close>

definition loan_return_item ::
  "loan \<Rightarrow> library_item \<Rightarrow> date \<Rightarrow> pyfloat \<Rightarrow> (error + pyfloat) \<times> loan \<times> library_item" where
  "loan_return_item l it return_date daily_rate =
     (if \<not> loan_is_active l
      then (Inl (RuntimeError (''Loan '' @ loan_id l @ '' is already closed'')), l, it)
      else let l1 = l\<lparr>returned_on := Some return_date\<rparr> in
           case return_copy it of
             (Inl e, it1) \<Rightarrow> (Inl e, l1, it1)
           | (Inr u, it1) \<Rightarrow> (Inr (calculate_fine l1 return_date daily_rate), l1, it1))"

text \<open>The test of the loop over \<open>holds\<close> in \<open>Loan.renew\<close>, and the loop: it answers whether
  some hold made the method return \<open>None\<close>.\<close>

definition hold_blocks :: "user \<Rightarrow> library_item \<Rightarrow> date \<Rightarrow> hold \<Rightarrow> bool" where
  "hold_blocks u it today h \<longleftrightarrow>
     hold_item_id h = item_id it \<and> hold_user_id h \<noteq> user_id u \<and> expires_on h \<ge> today
     \<and> \<not> cancelled h"

fun holds_loop :: "user \<Rightarrow> library_item \<Rightarrow> date \<Rightarrow> hold list \<Rightarrow> bool" where
  "holds_loop u it today [] = False"
| "holds_loop u it today (h # hs) =
     (if hold_blocks u it today h then True else holds_loop u it today hs)"

text \<open>\<open>renew\<close> returns \<open>None\<close> or the new due date; \<open>holds\<close> is \<open>None\<close> or a list, and the
  loop runs when it is a list that is not empty.\<close>

definition renew ::
  "loan \<Rightarrow> user \<Rightarrow> library_item \<Rightarrow> date \<Rightarrow> hold list option \<Rightarrow> int \<Rightarrow> bool \<Rightarrow> date option \<times> loan" where
  "renew l u it today holds max_renewals allow_overdue =
     (if \<not> loan_is_active l then (None, l)
      else if loan_user_id l \<noteq> user_id u then (None, l)
      else if renewals l \<ge> max_renewals then (None, l)
      else if \<not> allow_overdue \<and> today > due l then (None, l)
      else if (case holds of None \<Rightarrow> False | Some hs \<Rightarrow> hs \<noteq> [] \<and> holds_loop u it today hs)
      then (None, l)
      else let l1 = l\<lparr>due := calculate_due_date today (role u)\<rparr>;
               l2 = l1\<lparr>renewals := renewals l1 + 1\<rparr>
           in (Some (due l2), l2))"

subsection \<open>The catalog (\<open>catalog.py\<close>)\<close>

text \<open>A dictionary of objects is a map from keys to records; mutating an object that a
  dictionary holds updates the entry under which it is stored. The listing and search
  methods of the catalog are not used by the circulation operations and are left out.\<close>

record catalog =
  catalog_name :: string
  items :: "string \<rightharpoonup> library_item"

definition new_catalog :: "string \<Rightarrow> error + catalog" where
  "new_catalog nm =
     (if blank nm then Inl (ValueError ''Catalog name cannot be empty'')
      else Inr \<lparr> catalog_name = py_strip nm, items = Map.empty \<rparr>)"

definition catalog_add_item :: "catalog \<Rightarrow> library_item \<Rightarrow> (error + unit) \<times> catalog" where
  "catalog_add_item c it =
     (if items c (item_id it) \<noteq> None
      then (Inl (ValueError (''Item '' @ item_id it @ '' already exists in catalog'')), c)
      else (Inr (), c\<lparr>items := (items c)(item_id it \<mapsto> it)\<rparr>))"

definition catalog_get_item :: "catalog \<Rightarrow> string \<Rightarrow> library_item option" where
  "catalog_get_item c iid = items c iid"

definition remove_item :: "catalog \<Rightarrow> string \<Rightarrow> (error + library_item) \<times> catalog" where
  "remove_item c iid =
     (case items c iid of
        None \<Rightarrow> (Inl (KeyError (''Item '' @ iid @ '' not found in catalog'')), c)
      | Some it \<Rightarrow> (Inr it, c\<lparr>items := (items c)(iid := None)\<rparr>))"

subsection \<open>The coordinator (\<open>library_system.py\<close>)\<close>

text \<open>The holds are kept in insertion order, which \<open>get_active_holds_for_item\<close> follows.\<close>

record library_system =
  catalog :: catalog
  users :: "string \<rightharpoonup> user"
  loans :: "string \<rightharpoonup> loan"
  holds :: "(string \<times> hold) list"

definition new_library_system :: "string \<Rightarrow> error + library_system" where
  "new_library_system nm =
     (case new_catalog nm of
        Inl e \<Rightarrow> Inl e
      | Inr c \<Rightarrow> Inr \<lparr> catalog = c, users = Map.empty, loans = Map.empty, holds = [] \<rparr>)"

definition add_user :: "library_system \<Rightarrow> user \<Rightarrow> (error + unit) \<times> library_system" where
  "add_user sys u =
     (if users sys (user_id u) \<noteq> None
      then (Inl (ValueError (''User '' @ user_id u @ '' already exists'')), sys)
      else (Inr (), sys\<lparr>users := (users sys)(user_id u \<mapsto> u)\<rparr>))"

definition get_user :: "library_system \<Rightarrow> string \<Rightarrow> user option" where
  "get_user sys uid = users sys uid"

definition add_item :: "library_system \<Rightarrow> library_item \<Rightarrow> (error + unit) \<times> library_system" where
  "add_item sys it =
     (case catalog_add_item (catalog sys) it of (r, c) \<Rightarrow> (r, sys\<lparr>catalog := c\<rparr>))"

definition get_item :: "library_system \<Rightarrow> string \<Rightarrow> library_item option" where
  "get_item sys iid = catalog_get_item (catalog sys) iid"

definition store_item :: "library_system \<Rightarrow> string \<Rightarrow> library_item \<Rightarrow> library_system" where
  "store_item sys iid it = sys\<lparr>catalog := (catalog sys)\<lparr>items := (items (catalog sys))(iid \<mapsto> it)\<rparr>\<rparr>"

definition store_user :: "library_system \<Rightarrow> string \<Rightarrow> user \<Rightarrow> library_system" where
  "store_user sys uid u = sys\<lparr>users := (users sys)(uid \<mapsto> u)\<rparr>"

definition store_loan :: "library_system \<Rightarrow> string \<Rightarrow> loan \<Rightarrow> library_system" where
  "store_loan sys lid l = sys\<lparr>loans := (loans sys)(lid \<mapsto> l)\<rparr>"

text \<open>\<open>checkout_item\<close>: the item is decremented before the \<open>Loan\<close> is constructed, and the
  loan is stored by plain assignment \<open>self._loans[loan_id] = loan\<close>.\<close>

definition checkout_item ::
  "library_system \<Rightarrow> string \<Rightarrow> string \<Rightarrow> string \<Rightarrow> date \<Rightarrow> (error + loan) \<times> library_system" where
  "checkout_item sys lid uid iid checkout_date =
     (case users sys uid of
        None \<Rightarrow> (Inl (KeyError (''Unknown user '' @ uid)), sys)
      | Some u \<Rightarrow>
          (case catalog_get_item (catalog sys) iid of
             None \<Rightarrow> (Inl (KeyError (''Unknown item '' @ iid)), sys)
           | Some it \<Rightarrow>
               if \<not> is_available it
               then (Inl (RuntimeError (''Item '' @ iid @ '' is not available'')), sys)
               else let d = item_calculate_due_date it checkout_date (role u) in
                 (case checkout_copy it of
                    (Inl e, it1) \<Rightarrow> (Inl e, store_item sys iid it1)
                  | (Inr x, it1) \<Rightarrow>
                      let sys1 = store_item sys iid it1 in
                      (case new_loan lid (user_id u) (item_id it1) d None 0 of
                         Inl e \<Rightarrow> (Inl e, sys1)
                       | Inr l \<Rightarrow>
                           let sys2 = store_loan sys1 lid l;
                               sys3 = store_user sys2 uid (add_loan u lid)
                           in (Inr l, sys3)))))"

definition return_item ::
  "library_system \<Rightarrow> string \<Rightarrow> date \<Rightarrow> pyfloat \<Rightarrow> (error + pyfloat) \<times> library_system" where
  "return_item sys lid return_date daily_rate =
     (case loans sys lid of
        None \<Rightarrow> (Inl (KeyError (''Unknown loan '' @ lid)), sys)
      | Some l \<Rightarrow>
          (case catalog_get_item (catalog sys) (loan_item_id l) of
             None \<Rightarrow> (Inl (KeyError (''Unknown item '' @ loan_item_id l)), sys)
           | Some it \<Rightarrow>
               (case loan_return_item l it return_date daily_rate of
                  (Inl e, l1, it1) \<Rightarrow>
                    (Inl e, store_item (store_loan sys lid l1) (loan_item_id l) it1)
                | (Inr fine, l1, it1) \<Rightarrow>
                    let sys1 = store_item (store_loan sys lid l1) (loan_item_id l) it1 in
                    (case users sys1 (loan_user_id l1) of
                       None \<Rightarrow> (Inl (KeyError (loan_user_id l1)), sys1)
                     | Some u \<Rightarrow>
                         (case remove_loan u lid of
                            (Inl e, u1) \<Rightarrow> (Inl e, store_user sys1 (loan_user_id l1) u1)
                          | (Inr x, u1) \<Rightarrow>
                              if fine > 0 then
                                (case add_fine u1 fine of
                                   (Inl e, u2) \<Rightarrow> (Inl e, store_user sys1 (loan_user_id l1) u2)
                                 | (Inr y, u2) \<Rightarrow> (Inr fine, store_user sys1 (loan_user_id l1) u2))
                              else (Inr fine, store_user sys1 (loan_user_id l1) u1))))))"

definition place_hold ::
  "library_system \<Rightarrow> string \<Rightarrow> string \<Rightarrow> string \<Rightarrow> date \<Rightarrow> date \<Rightarrow> (error + hold) \<times> library_system" where
  "place_hold sys hid uid iid placed expires =
     (if hid \<in> fst ` set (holds sys)
      then (Inl (ValueError (''Hold '' @ hid @ '' already exists'')), sys)
      else case new_hold hid uid iid placed expires False of
             Inl e \<Rightarrow> (Inl e, sys)
           | Inr h \<Rightarrow> (Inr h, sys\<lparr>holds := holds sys @ [(hid, h)]\<rparr>))"

definition get_active_holds_for_item :: "library_system \<Rightarrow> string \<Rightarrow> date \<Rightarrow> hold list" where
  "get_active_holds_for_item sys iid today =
     [h \<leftarrow> map snd (holds sys). hold_item_id h = iid \<and> hold_is_active h today]"

subsection \<open>Example objects\<close>

text \<open>The objects of the tests and of the docstrings, as the constructors build them.\<close>

definition demo_book :: library_item where
  "demo_book = \<lparr> item_id = ''B1'', title = ''Test Book'', creators = [''A''], tags = {},
       available_copies = 1, total_copies = 1, call_number = None, isbn = None, kind = Book None \<rparr>"

definition shelf_book :: library_item where
  "shelf_book = \<lparr> item_id = ''B1'', title = ''Test Book'', creators = [''A''], tags = {},
       available_copies = 2, total_copies = 2, call_number = None, isbn = None, kind = Book None \<rparr>"

definition demo_ebook :: library_item where
  "demo_ebook = \<lparr> item_id = ''EB'', title = ''EBook'', creators = [''A''], tags = {},
       available_copies = 1, total_copies = 1, call_number = None, isbn = None, kind = EBook \<rparr>"

definition demo_dvd :: library_item where
  "demo_dvd = \<lparr> item_id = ''DV'', title = ''DVD'', creators = [''A''], tags = {},
       available_copies = 0, total_copies = 1, call_number = None, isbn = None, kind = DVD \<rparr>"

definition demo_user :: user where
  "demo_user = \<lparr> user_id = ''U1'', name = ''Jane Doe'', role = ''Student'',
       active_loan_ids = [], total_fines = 0 \<rparr>"

definition demo_user2 :: user where
  "demo_user2 = \<lparr> user_id = ''U2'', name = ''John Roe'', role = ''Faculty'',
       active_loan_ids = [], total_fines = 0 \<rparr>"

definition demo_hold :: hold where
  "demo_hold = \<lparr> hold_id = ''H001'', hold_user_id = ''U002'', hold_item_id = ''B1'',
       placed_on = ymd2ord 2025 11 1, expires_on = ymd2ord 2025 11 7, notified = False,
       fulfilled = False, cancelled = False \<rparr>"

definition demo_fulfilled_hold :: hold where
  "demo_fulfilled_hold = \<lparr> hold_id = ''H7'', hold_user_id = ''U2'', hold_item_id = ''DV'',
       placed_on = ymd2ord 2025 3 1, expires_on = ymd2ord 2025 3 31, notified = False,
       fulfilled = True, cancelled = False \<rparr>"

definition demo_loan :: loan where
  "demo_loan = \<lparr> loan_id = ''L1'', loan_user_id = ''U1'', loan_item_id = ''DV'',
       due = ymd2ord 2025 3 8, returned_on = None, renewals = 0 \<rparr>"

definition ebook_loan :: loan where
  "ebook_loan = \<lparr> loan_id = ''L1'', loan_user_id = ''U1'', loan_item_id = ''EB'',
       due = ymd2ord 2025 3 1, returned_on = None, renewals = 0 \<rparr>"

definition book_loan :: loan where
  "book_loan = \<lparr> loan_id = ''L1'', loan_user_id = ''U1'', loan_item_id = ''B1'',
       due = ymd2ord 2025 3 15, returned_on = None, renewals = 0 \<rparr>"

definition book_loan2 :: loan where
  "book_loan2 = \<lparr> loan_id = ''L1'', loan_user_id = ''U2'', loan_item_id = ''B1'',
       due = ymd2ord 2025 3 30, returned_on = None, renewals = 0 \<rparr>"

definition demo_system :: library_system where
  "demo_system = \<lparr> catalog = \<lparr> catalog_name = ''Test Library'',
                                 items = [''B1'' \<mapsto> shelf_book, ''EB'' \<mapsto> demo_ebook] \<rparr>,
                    users = [''U1'' \<mapsto> demo_user, ''U2'' \<mapsto> demo_user2],
                    loans = Map.empty,
                    holds = [] \<rparr>"

text \<open>The system after user U1 has checked out the e-book as loan L1 on 2025-03-01, and
  after U1 has checked out the book as loan L1 on that day.\<close>

definition ebook_lent :: library_system where
  "ebook_lent = snd (checkout_item demo_system ''L1'' ''U1'' ''EB'' (ymd2ord 2025 3 1))"

definition book_lent :: library_system where
  "book_lent = snd (checkout_item demo_system ''L1'' ''U1'' ''B1'' (ymd2ord 2025 3 1))"

section \<open>Properties\<close>

lemmas demo_defs = demo_system_def shelf_book_def demo_book_def demo_ebook_def demo_dvd_def
  demo_user_def demo_user2_def demo_hold_def demo_fulfilled_hold_def demo_loan_def
  ebook_loan_def book_loan_def book_loan2_def ebook_lent_def book_lent_def

lemmas date_defs = ymd2ord_def days_before_year_def days_before_month_def
  days_before_month_table_def is_leap_def

lemmas string_defs = blank_def py_strip_def py_isspace_def normalize_name_def py_split_def
  py_title_def py_isalpha_def py_upper_char_def py_lower_char_def lower_letters_def
  upper_letters_def

lemmas checkout_defs = checkout_item_def catalog_get_item_def is_available_def
  item_calculate_due_date_def calculate_due_date_def checkout_copy_def store_item_def
  store_loan_def store_user_def new_loan_def blank_def py_strip_def py_isspace_def add_loan_def

lemmas return_defs = return_item_def catalog_get_item_def loan_return_item_def loan_is_active_def
  return_copy_def store_item_def store_loan_def store_user_def calculate_fine_def remove_loan_def
  add_fine_def

subsection \<open>The constructors on the example objects\<close>

lemma new_item_demo_book:
  "new_item (Book None) ''B1'' ''Test Book'' [''a''] {} 1 None None = Inr demo_book"
  by (simp add: new_item_def init_item_def demo_book_def string_defs)

lemma new_user_demo_user: "new_user ''U1'' ''jane doe'' ''Student'' = Inr demo_user"
  by (simp add: new_user_def demo_user_def validate_user_role_def string_defs)

lemma new_hold_demo_hold:
  "new_hold ''H001'' ''U002'' ''B1'' (ymd2ord 2025 11 1) (ymd2ord 2025 11 7) False = Inr demo_hold"
  by (simp add: new_hold_def demo_hold_def string_defs ymd2ord_def)

lemma validate_isbn_examples:
  "validate_isbn ''0-306-40615-2''"
  "validate_isbn ''978-0-306-40615-7''"
  "\<not> validate_isbn ''978-0-306-40615-8''"
  by (simp_all add: validate_isbn_def py_upper_def py_upper_char_def lower_letters_def
      upper_letters_def py_isdigit_def digit_val_def)

subsection \<open>Items: the copy counters\<close>

lemma checkout_copy_range: "copies_in_range it \<Longrightarrow> copies_in_range (snd (checkout_copy it))"
  by (auto simp: copies_in_range_def checkout_copy_def split: item_kind.splits)

lemma return_copy_range: "copies_in_range it \<Longrightarrow> copies_in_range (snd (return_copy it))"
  by (auto simp: copies_in_range_def return_copy_def)

lemma item_step_range:
  assumes "copies_in_range it"
  shows "copies_in_range (item_step it op)"
proof (cases op)
  case CheckoutCopy
  then show ?thesis using assms checkout_copy_range[of it] by simp
next
  case ReturnCopy
  then show ?thesis using assms return_copy_range[of it] by simp
next
  case (AddTag t)
  then show ?thesis using assms by (simp add: add_tag_def copies_in_range_def)
next
  case (RemoveTag t)
  then show ?thesis using assms by (simp add: remove_tag_def copies_in_range_def)
qed

lemma item_run_range: "copies_in_range it \<Longrightarrow> copies_in_range (item_run it ops)"
  unfolding item_run_def
  by (induction ops arbitrary: it) (auto simp: item_step_range)

lemma new_item_fields:
  "new_item k iid ttl crs tgs n cn isb = Inr it \<Longrightarrow>
     0 \<le> n \<and> available_copies it = n \<and> total_copies it = n \<and> kind it = k"
  by (auto simp: new_item_def init_item_def split: if_splits option.splits)

lemma item_step_total: "total_copies (item_step it op) = total_copies it"
  by (cases op)
    (auto simp: checkout_copy_def return_copy_def add_tag_def remove_tag_def split: item_kind.splits)

lemma item_run_total: "total_copies (item_run it ops) = total_copies it"
  unfolding item_run_def
  by (induction ops arbitrary: it) (auto simp: item_step_total)

text \<open>
  C5. An item whose available count lies between 0 and its total keeps that property
  under every sequence of calls. On such an item, \<open>checkout_copy\<close> of a class other than
  \<open>EBook\<close> raises the "no available copies" error and changes nothing when no copy is
  available, and takes one copy otherwise; \<open>return_copy\<close> raises the "already returned"
  error and changes nothing when all copies are in, and adds one copy otherwise;
  \<open>checkout_copy\<close> of an \<open>EBook\<close> changes nothing and does not raise.
\<close>

theorem copies_stay_in_range:
  assumes "copies_in_range it"
  shows "(\<forall>ops. copies_in_range (item_run it ops))
    \<and> (kind it \<noteq> EBook \<longrightarrow>
         checkout_copy it =
           (if available_copies it = 0
            then (Inl (RuntimeError (''Item '' @ item_id it @ '' has no available copies'')), it)
            else (Inr (), it\<lparr>available_copies := available_copies it - 1\<rparr>)))
    \<and> return_copy it =
          (if available_copies it = total_copies it
           then (Inl (RuntimeError (''All copies of '' @ item_id it @ '' are already returned'')), it)
           else (Inr (), it\<lparr>available_copies := available_copies it + 1\<rparr>))
    \<and> (kind it = EBook \<longrightarrow> checkout_copy it = (Inr (), it))"
proof (intro conjI allI impI)
  fix ops show "copies_in_range (item_run it ops)"
    using assms by (rule item_run_range)
next
  assume "kind it \<noteq> EBook"
  then show "checkout_copy it =
           (if available_copies it = 0
            then (Inl (RuntimeError (''Item '' @ item_id it @ '' has no available copies'')), it)
            else (Inr (), it\<lparr>available_copies := available_copies it - 1\<rparr>))"
    using assms by (auto simp: checkout_copy_def copies_in_range_def split: item_kind.splits)
next
  show "return_copy it =
          (if available_copies it = total_copies it
           then (Inl (RuntimeError (''All copies of '' @ item_id it @ '' are already returned'')), it)
           else (Inr (), it\<lparr>available_copies := available_copies it + 1\<rparr>))"
    using assms by (auto simp: return_copy_def copies_in_range_def)
next
  assume "kind it = EBook"
  then show "checkout_copy it = (Inr (), it)"
    by (simp add: checkout_copy_def)
qed

theorem copies_stay_in_range_witness:
  "copies_in_range demo_book
   \<and> checkout_copy demo_book = (Inr (), demo_book\<lparr>available_copies := 0\<rparr>)
   \<and> return_copy demo_book = (Inl (RuntimeError ''All copies of B1 are already returned''), demo_book)
   \<and> copies_in_range (item_run demo_book [CheckoutCopy, CheckoutCopy, ReturnCopy, ReturnCopy])
   \<and> checkout_copy demo_ebook = (Inr (), demo_ebook)"
proof -
  have b: "copies_in_range demo_book" by (simp add: copies_in_range_def demo_book_def)
  have e: "copies_in_range demo_ebook" by (simp add: copies_in_range_def demo_ebook_def)
  have kb: "kind demo_book \<noteq> EBook" by (simp add: demo_book_def)
  have ke: "kind demo_ebook = EBook" by (simp add: demo_ebook_def)
  have ab: "available_copies demo_book = 1" "total_copies demo_book = 1" "item_id demo_book = ''B1''"
    by (simp_all add: demo_book_def)
  show ?thesis
    using b copies_stay_in_range [OF b] copies_stay_in_range [OF e] kb ke ab by simp
qed

text \<open>
  C10. The constructor sets \<open>total_copies\<close> and \<open>available_copies\<close> to its one count
  argument; no call changes \<open>total_copies\<close> of any item; so after every sequence of calls
  on a constructed item the total is the count it was created with and the available
  count is at most that.
\<close>

theorem total_copies_fixed:
  assumes "new_item k iid ttl crs tgs n cn isb = Inr it"
  shows "total_copies it = n \<and> available_copies it = n
    \<and> (\<forall>ops. total_copies (item_run it ops) = n \<and> available_copies (item_run it ops) \<le> n)
    \<and> (\<forall>it' op. total_copies (item_step it' op) = total_copies it')"
proof -
  from assms have f: "0 \<le> n" "available_copies it = n" "total_copies it = n"
    using new_item_fields by blast+
  then have r: "copies_in_range it" by (simp add: copies_in_range_def)
  have "total_copies (item_run it ops) = n \<and> available_copies (item_run it ops) \<le> n" for ops
    using item_run_range [OF r, of ops] item_run_total [of it ops] f
    by (simp add: copies_in_range_def)
  with f show ?thesis by (simp add: item_step_total)
qed

theorem total_copies_fixed_witness:
  "new_item (Book None) ''B1'' ''Test Book'' [''a''] {} 1 None None = Inr demo_book
   \<and> total_copies demo_book = 1
   \<and> available_copies (item_run demo_book [ReturnCopy, CheckoutCopy, ReturnCopy, ReturnCopy]) \<le> 1"
  using new_item_demo_book total_copies_fixed [OF new_item_demo_book] by simp

subsection \<open>Items: the due-date policy\<close>

text \<open>
  C6. For every checkout date and every valid role: a generic item or a \<open>Book\<close> is due 14
  days after checkout for Student and Public and 28 days after for the other roles, a
  \<open>Journal\<close> 7 days after for Student and Public and 14 days after for the other roles, a
  \<open>DVD\<close> 7 days after for every role, and an \<open>EBook\<close> on the checkout date.
\<close>

theorem due_date_policy_table:
  assumes "validate_user_role r"
  shows "((kind it = Generic \<or> (\<exists>g. kind it = Book g)) \<longrightarrow>
            item_calculate_due_date it d r =
              (if r = ''Student'' \<or> r = ''Public'' then d + 14 else d + 28))
    \<and> (kind it = Journal \<longrightarrow>
            item_calculate_due_date it d r =
              (if r = ''Student'' \<or> r = ''Public'' then d + 7 else d + 14))
    \<and> (kind it = DVD \<longrightarrow> item_calculate_due_date it d r = d + 7)
    \<and> (kind it = EBook \<longrightarrow> item_calculate_due_date it d r = d)"
  by (auto simp: item_calculate_due_date_def calculate_due_date_def)

theorem due_date_policy_table_witness:
  "validate_user_role ''Faculty''
   \<and> item_calculate_due_date demo_book (ymd2ord 2025 3 1) ''Faculty'' = ymd2ord 2025 3 29
   \<and> item_calculate_due_date demo_ebook (ymd2ord 2025 3 1) ''Faculty'' = ymd2ord 2025 3 1"
proof -
  have v: "validate_user_role ''Faculty''" by (simp add: validate_user_role_def)
  have k: "kind demo_book = Book None" "kind demo_ebook = EBook"
    by (simp_all add: demo_book_def demo_ebook_def)
  have o: "ymd2ord 2025 3 29 = ymd2ord 2025 3 1 + 28"
    by (simp add: ymd2ord_def)
  show ?thesis
    using v due_date_policy_table [OF v, of demo_book "ymd2ord 2025 3 1"]
      due_date_policy_table [OF v, of demo_ebook "ymd2ord 2025 3 1"] k o by simp
qed

subsection \<open>Holds\<close>

lemma new_hold_flags: "new_hold hid uid iid p e n = Inr h \<Longrightarrow> \<not> fulfilled h \<and> \<not> cancelled h"
  by (auto simp: new_hold_def split: if_splits)

lemma hold_step_exclusive:
  "\<not> (fulfilled h \<and> cancelled h) \<Longrightarrow> \<not> (fulfilled (hold_step h op) \<and> cancelled (hold_step h op))"
  by (cases op) (auto simp: notify_def fulfill_def cancel_def extend_hold_def Let_def)

text \<open>No sequence of calls makes a hold both fulfilled and cancelled.\<close>

lemma hold_run_exclusive:
  "\<not> (fulfilled h \<and> cancelled h) \<Longrightarrow> \<not> (fulfilled (hold_run h ops) \<and> cancelled (hold_run h ops))"
  unfolding hold_run_def
proof (induction ops arbitrary: h)
  case Nil
  then show ?case by simp
next
  case (Cons op ops)
  from Cons.prems have "\<not> (fulfilled (hold_step h op) \<and> cancelled (hold_step h op))"
    by (rule hold_step_exclusive)
  then show ?case using Cons.IH by simp
qed

text \<open>The hold of the example, cancelled, is reported expired on the day after its expiry
  date.\<close>

theorem cancelled_hold_counterexample:
  "cancel demo_hold = (Inr (), demo_hold\<lparr>cancelled := True\<rparr>)
   \<and> cancelled (demo_hold\<lparr>cancelled := True\<rparr>)
   \<and> is_expired (demo_hold\<lparr>cancelled := True\<rparr>) (ymd2ord 2025 11 8)"
  by (simp add: cancel_def demo_hold_def is_expired_def date_defs)

text \<open>
  C4, as the code has it. For every hold that has been constructed and then, by any
  sequence of calls, cancelled, and for every date \<open>today\<close>, \<open>is_expired today\<close> is true
  exactly when \<open>today\<close> is after the expiry date: cancellation does not enter the test.
\<close>

theorem cancelled_hold_expiry:
  assumes "new_hold hid uid iid p e n = Inr h" and "cancelled (hold_run h ops)"
  shows "is_expired (hold_run h ops) today \<longleftrightarrow> today > expires_on (hold_run h ops)"
proof -
  from assms(1) have "\<not> (fulfilled h \<and> cancelled h)"
    using new_hold_flags by blast
  then have "\<not> (fulfilled (hold_run h ops) \<and> cancelled (hold_run h ops))"
    by (rule hold_run_exclusive)
  with assms(2) have "\<not> fulfilled (hold_run h ops)" by simp
  then show ?thesis by (simp add: is_expired_def)
qed

theorem cancelled_hold_expiry_witness:
  "new_hold ''H001'' ''U002'' ''B1'' (ymd2ord 2025 11 1) (ymd2ord 2025 11 7) False = Inr demo_hold
   \<and> cancelled (hold_run demo_hold [Notify, Cancel])
   \<and> is_expired (hold_run demo_hold [Notify, Cancel]) (ymd2ord 2025 11 8)
   \<and> \<not> is_expired (hold_run demo_hold [Notify, Cancel]) (ymd2ord 2025 11 7)"
proof -
  have c: "cancelled (hold_run demo_hold [Notify, Cancel])"
    by (simp add: hold_run_def notify_def cancel_def demo_hold_def)
  have e: "expires_on (hold_run demo_hold [Notify, Cancel]) = ymd2ord 2025 11 7"
    by (simp add: hold_run_def notify_def cancel_def demo_hold_def)
  have o: "ymd2ord 2025 11 8 > ymd2ord 2025 11 7"
    by (simp add: ymd2ord_def)
  show ?thesis
    using new_hold_demo_hold c e o
      cancelled_hold_expiry [OF new_hold_demo_hold c, of "ymd2ord 2025 11 8"]
      cancelled_hold_expiry [OF new_hold_demo_hold c, of "ymd2ord 2025 11 7"]
    by simp
qed

subsection \<open>Loans: renewal\<close>

lemma holds_loop_iff: "holds_loop u it today hs \<longleftrightarrow> (\<exists>h \<in> set hs. hold_blocks u it today h)"
  by (induction hs) auto

text \<open>What \<open>renew\<close> does once its first four tests pass: it is refused exactly when some
  hold of the list is on the item, by another user, not cancelled and not yet past its
  expiry date; whether the hold is fulfilled is not looked at.\<close>

lemma renew_outcome:
  assumes "loan_is_active l" "loan_user_id l = user_id u" "renewals l < m" "a \<or> \<not> today > due l"
  shows "renew l u it today hs m a =
     (if (\<exists>h \<in> (case hs of None \<Rightarrow> {} | Some xs \<Rightarrow> set xs). hold_blocks u it today h) then (None, l)
      else (Some (calculate_due_date today (role u)),
            l\<lparr>due := calculate_due_date today (role u), renewals := renewals l + 1\<rparr>))"
  using assms by (cases hs) (auto simp: renew_def holds_loop_iff Let_def)

text \<open>
  C2, at a failing input. The loan is active, the user is its borrower, no renewal has
  been made and the loan is not overdue; the one hold on the item, by another user, has
  been fulfilled, so it is not active and no other user holds an active hold. \<open>renew\<close>
  returns \<open>None\<close> and leaves the loan as it was, where without the hold it renews.
\<close>

theorem renew_fulfilled_hold_blocks:
  "loan_is_active demo_loan
   \<and> loan_user_id demo_loan = user_id demo_user
   \<and> renewals demo_loan < 2
   \<and> \<not> ymd2ord 2025 3 5 > due demo_loan
   \<and> fulfill (demo_fulfilled_hold\<lparr>fulfilled := False\<rparr>) = (Inr (), demo_fulfilled_hold)
   \<and> \<not> hold_is_active demo_fulfilled_hold (ymd2ord 2025 3 5)
   \<and> renew demo_loan demo_user demo_dvd (ymd2ord 2025 3 5) (Some [demo_fulfilled_hold]) 2 False
       = (None, demo_loan)
   \<and> renew demo_loan demo_user demo_dvd (ymd2ord 2025 3 5) (Some []) 2 False
       = (Some (ymd2ord 2025 3 19), demo_loan\<lparr>due := ymd2ord 2025 3 19, renewals := 1\<rparr>)"
  by (simp add: renew_def loan_is_active_def demo_loan_def demo_user_def demo_dvd_def
      demo_fulfilled_hold_def hold_is_active_def hold_blocks_def fulfill_def
      calculate_due_date_def date_defs)

text \<open>
  C8. Whenever \<open>renew\<close> returns a due date, that date is \<open>today\<close> plus 14 days for the roles
  Student and Public and plus 28 days for every other role, it is the loan's new due
  date, the renewal count has grown by one and nothing else in the loan has changed; for
  a \<open>Journal\<close>, a \<open>DVD\<close> and an \<open>EBook\<close> it differs from the date the item's own policy gives.
\<close>

theorem renew_success:
  assumes "renew l u it today hs m a = (Some d, l')"
  shows "d = today + (if role u = ''Student'' \<or> role u = ''Public'' then 14 else 28)
    \<and> l' = l\<lparr>due := d, renewals := renewals l + 1\<rparr>
    \<and> due l' = d \<and> renewals l' = renewals l + 1
    \<and> (kind it \<in> {Journal, DVD, EBook} \<longrightarrow> d \<noteq> item_calculate_due_date it today (role u))"
  using assms
  by (auto simp: renew_def Let_def calculate_due_date_def item_calculate_due_date_def
      split: if_splits)

theorem renew_success_witness:
  "renew demo_loan demo_user demo_dvd (ymd2ord 2025 3 5) None 2 False
       = (Some (ymd2ord 2025 3 5 + 14), demo_loan\<lparr>due := ymd2ord 2025 3 5 + 14, renewals := 1\<rparr>)
   \<and> ymd2ord 2025 3 5 + 14 \<noteq> item_calculate_due_date demo_dvd (ymd2ord 2025 3 5) ''Student''"
proof -
  have r: "renew demo_loan demo_user demo_dvd (ymd2ord 2025 3 5) None 2 False
       = (Some (ymd2ord 2025 3 5 + 14), demo_loan\<lparr>due := ymd2ord 2025 3 5 + 14, renewals := 1\<rparr>)"
    by (simp add: renew_def loan_is_active_def demo_loan_def demo_user_def
      calculate_due_date_def date_defs)
  have k: "kind demo_dvd \<in> {Journal, DVD, EBook}" "role demo_user = ''Student''"
    by (simp_all add: demo_dvd_def demo_user_def)
  have "kind demo_dvd \<in> {Journal, DVD, EBook} \<longrightarrow>
      ymd2ord 2025 3 5 + 14 \<noteq> item_calculate_due_date demo_dvd (ymd2ord 2025 3 5) (role demo_user)"
    using renew_success [OF r] by blast
  with k have "ymd2ord 2025 3 5 + 14 \<noteq> item_calculate_due_date demo_dvd (ymd2ord 2025 3 5) ''Student''"
    by simp
  with r show ?thesis by (rule conjI)
qed

text \<open>
  C9. On a loan whose return date is set, every call of \<open>renew\<close> returns \<open>None\<close> and
  leaves the loan, and with it the renewal count and the due date, as it was; a further
  call, with any arguments, does the same.
\<close>

theorem renew_closed_loan:
  assumes "returned_on l = Some r"
  shows "renew l u it today hs m a = (None, l)
    \<and> renew (snd (renew l u it today hs m a)) u' it' today' hs' m' a' = (None, l)"
  using assms by (simp add: renew_def loan_is_active_def)

theorem renew_closed_loan_witness:
  "returned_on (demo_loan\<lparr>returned_on := Some (ymd2ord 2025 3 8)\<rparr>) = Some (ymd2ord 2025 3 8)
   \<and> renew (demo_loan\<lparr>returned_on := Some (ymd2ord 2025 3 8)\<rparr>) demo_user demo_dvd
        (ymd2ord 2025 3 5) None 2 False
      = (None, demo_loan\<lparr>returned_on := Some (ymd2ord 2025 3 8)\<rparr>)"
proof -
  have h: "returned_on (demo_loan\<lparr>returned_on := Some (ymd2ord 2025 3 8)\<rparr>) = Some (ymd2ord 2025 3 8)"
    by simp
  show ?thesis
    using h renew_closed_loan [OF h, of demo_user demo_dvd "ymd2ord 2025 3 5" None 2 False]
    by simp
qed

subsection \<open>Calls that raise\<close>

text \<open>\<open>Loan.return_item\<close> on a closed loan changes neither the loan nor the item.\<close>

lemma loan_return_item_closed:
  "returned_on l \<noteq> None \<Longrightarrow>
     loan_return_item l it d r
       = (Inl (RuntimeError (''Loan '' @ loan_id l @ '' is already closed'')), l, it)"
  by (simp add: loan_return_item_def loan_is_active_def)

text \<open>On an active loan whose item has all its copies in, the call raises with the return
  date already assigned.\<close>

lemma loan_return_item_over_return:
  "returned_on l = None \<Longrightarrow> available_copies it \<ge> total_copies it \<Longrightarrow>
     loan_return_item l it d r
       = (Inl (RuntimeError (''All copies of '' @ item_id it @ '' are already returned'')),
          l\<lparr>returned_on := Some d\<rparr>, it)"
  by (simp add: loan_return_item_def loan_is_active_def return_copy_def)

lemma loan_return_item_raises_item:
  "fst (loan_return_item l it d r) = Inl e \<Longrightarrow> snd (snd (loan_return_item l it d r)) = it"
  by (auto simp: loan_return_item_def return_copy_def Let_def split: if_splits)

text \<open>A \<open>checkout_item\<close> that raises leaves the whole system as it was, unless the error
  is the \<open>ValueError\<close> of the \<open>Loan\<close> constructor.\<close>

lemma checkout_item_raises:
  assumes "fst (checkout_item sys lid uid iid d) = Inl e"
  shows "snd (checkout_item sys lid uid iid d) = sys \<or> (\<exists>m. e = ValueError m)"
  using assms
  by (auto simp: checkout_item_def checkout_copy_def new_loan_def is_available_def Let_def
      split: option.splits if_splits item_kind.splits sum.splits)

text \<open>
  C1, at two failing inputs. User U1 checks the e-book out as loan L1 and returns it:
  the checkout leaves the e-book with all its copies, so \<open>return_copy\<close> raises inside
  \<open>Loan.return_item\<close>, and the stored loan is left with its return date set. A checkout
  of the book under a blank loan id raises the \<open>ValueError\<close> of the \<open>Loan\<close> constructor,
  and the book is left with one copy fewer.
\<close>

theorem failed_calls_keep_mutations:
  "fst (checkout_item demo_system ''L1'' ''U1'' ''EB'' (ymd2ord 2025 3 1)) = Inr ebook_loan
   \<and> loans ebook_lent ''L1'' = Some ebook_loan
   \<and> items (catalog ebook_lent) ''EB'' = Some demo_ebook
   \<and> returned_on ebook_loan = None
   \<and> fst (return_item ebook_lent ''L1'' (ymd2ord 2025 3 1) (1 / 4))
       = Inl (RuntimeError ''All copies of EB are already returned'')
   \<and> loans (snd (return_item ebook_lent ''L1'' (ymd2ord 2025 3 1) (1 / 4))) ''L1''
       = Some (ebook_loan\<lparr>returned_on := Some (ymd2ord 2025 3 1)\<rparr>)
   \<and> loan_return_item ebook_loan demo_ebook (ymd2ord 2025 3 1) (1 / 4)
       = (Inl (RuntimeError ''All copies of EB are already returned''),
          ebook_loan\<lparr>returned_on := Some (ymd2ord 2025 3 1)\<rparr>, demo_ebook)
   \<and> items (catalog demo_system) ''B1'' = Some shelf_book
   \<and> fst (checkout_item demo_system ''  '' ''U1'' ''B1'' (ymd2ord 2025 3 1))
       = Inl (ValueError ''Loan ID cannot be empty'')
   \<and> items (catalog (snd (checkout_item demo_system ''  '' ''U1'' ''B1'' (ymd2ord 2025 3 1)))) ''B1''
       = Some (shelf_book\<lparr>available_copies := 1\<rparr>)"
proof (intro conjI)
  show "fst (checkout_item demo_system ''L1'' ''U1'' ''EB'' (ymd2ord 2025 3 1)) = Inr ebook_loan"
    by (simp add: checkout_defs demo_defs date_defs)
  show "loans ebook_lent ''L1'' = Some ebook_loan"
    by (simp add: checkout_defs demo_defs date_defs)
  show "items (catalog ebook_lent) ''EB'' = Some demo_ebook"
    by (simp add: checkout_defs demo_defs date_defs)
  show "returned_on ebook_loan = None"
    by (simp add: ebook_loan_def)
  show "fst (return_item ebook_lent ''L1'' (ymd2ord 2025 3 1) (1 / 4))
       = Inl (RuntimeError ''All copies of EB are already returned'')"
    by (simp add: return_defs checkout_defs demo_defs date_defs)
  show "loans (snd (return_item ebook_lent ''L1'' (ymd2ord 2025 3 1) (1 / 4))) ''L1''
       = Some (ebook_loan\<lparr>returned_on := Some (ymd2ord 2025 3 1)\<rparr>)"
    by (simp add: return_defs checkout_defs demo_defs date_defs)
  show "loan_return_item ebook_loan demo_ebook (ymd2ord 2025 3 1) (1 / 4)
       = (Inl (RuntimeError ''All copies of EB are already returned''),
          ebook_loan\<lparr>returned_on := Some (ymd2ord 2025 3 1)\<rparr>, demo_ebook)"
    by (simp add: return_defs demo_defs)
  show "items (catalog demo_system) ''B1'' = Some shelf_book"
    by (simp add: demo_system_def)
  show "fst (checkout_item demo_system ''  '' ''U1'' ''B1'' (ymd2ord 2025 3 1))
       = Inl (ValueError ''Loan ID cannot be empty'')"
    by (simp add: checkout_defs demo_defs date_defs)
  show "items (catalog (snd (checkout_item demo_system ''  '' ''U1'' ''B1'' (ymd2ord 2025 3 1)))) ''B1''
       = Some (shelf_book\<lparr>available_copies := 1\<rparr>)"
    by (simp add: checkout_defs demo_defs date_defs)
qed

subsection \<open>The loan catalog\<close>

text \<open>A checkout that succeeds stores its loan under the given id, whatever was stored
  there, and whether it succeeds does not depend on the loans stored.\<close>

lemma checkout_item_stores:
  "fst (checkout_item sys lid uid iid d) = Inr l \<Longrightarrow>
     loans (snd (checkout_item sys lid uid iid d)) lid = Some l"
  by (auto simp: checkout_item_def store_loan_def store_user_def store_item_def Let_def
      split: option.splits if_splits prod.splits sum.splits)

lemma checkout_item_ignores_loans:
  "fst (checkout_item (sys\<lparr>loans := ls\<rparr>) lid uid iid d) = fst (checkout_item sys lid uid iid d)"
  by (auto simp: checkout_item_def store_loan_def store_user_def store_item_def Let_def
      catalog_get_item_def split: option.splits if_splits prod.splits sum.splits)

text \<open>
  C3, at a failing input. Loan L1 of the book to user U1 is stored; a second checkout of
  the book, by user U2 and under the same loan id L1, does not raise: it returns a new
  loan, which replaces the stored one.
\<close>

theorem checkout_item_duplicate_loan_id:
  "fst (checkout_item demo_system ''L1'' ''U1'' ''B1'' (ymd2ord 2025 3 1)) = Inr book_loan
   \<and> loans book_lent ''L1'' = Some book_loan
   \<and> fst (checkout_item book_lent ''L1'' ''U2'' ''B1'' (ymd2ord 2025 3 2)) = Inr book_loan2
   \<and> loans (snd (checkout_item book_lent ''L1'' ''U2'' ''B1'' (ymd2ord 2025 3 2))) ''L1''
       = Some book_loan2
   \<and> book_loan2 \<noteq> book_loan"
proof (intro conjI)
  show "fst (checkout_item demo_system ''L1'' ''U1'' ''B1'' (ymd2ord 2025 3 1)) = Inr book_loan"
    by (simp add: checkout_defs demo_defs date_defs)
  show "loans book_lent ''L1'' = Some book_loan"
    by (simp add: checkout_defs demo_defs date_defs)
  show "fst (checkout_item book_lent ''L1'' ''U2'' ''B1'' (ymd2ord 2025 3 2)) = Inr book_loan2"
    by (simp add: checkout_defs demo_defs date_defs)
  show "loans (snd (checkout_item book_lent ''L1'' ''U2'' ''B1'' (ymd2ord 2025 3 2))) ''L1''
       = Some book_loan2"
    by (simp add: checkout_defs demo_defs date_defs)
  show "book_loan2 \<noteq> book_loan"
    by (simp add: book_loan_def book_loan2_def)
qed

text \<open>The sibling paths refuse a duplicate id.\<close>

lemma add_user_duplicate:
  "users sys (user_id u) \<noteq> None \<Longrightarrow>
     add_user sys u = (Inl (ValueError (''User '' @ user_id u @ '' already exists'')), sys)"
  by (simp add: add_user_def)

lemma place_hold_duplicate:
  "hid \<in> fst ` set (holds sys) \<Longrightarrow>
     place_hold sys hid uid iid p e = (Inl (ValueError (''Hold '' @ hid @ '' already exists'')), sys)"
  by (simp add: place_hold_def)

subsection \<open>Fines\<close>

text \<open>The rounding steps of the float model: \<open>round_half_even\<close> moves its argument by at
  most one half, \<open>ilog2\<close> is the binary exponent, and \<open>fl\<close> moves a number by at most half
  a unit of the last place.\<close>

lemma round_half_even_bound: "\<bar>of_int (round_half_even q) - q\<bar> \<le> 1 / 2"
proof -
  have f: "of_int \<lfloor>q\<rfloor> \<le> q" "q < of_int \<lfloor>q\<rfloor> + 1"
    by linarith+
  show ?thesis
    unfolding round_half_even_def Let_def using f by (auto simp: abs_le_iff)
qed

lemma round_half_even_int: "round_half_even (of_int k) = k"
  by (simp add: round_half_even_def)

lemma pow2_pos: "0 < pow2 e"
  by (simp add: pow2_def)

lemma pow2_Suc: "pow2 (e + 1) = 2 * pow2 e"
proof (cases "0 \<le> e")
  case True
  then show ?thesis by (simp add: pow2_def nat_add_distrib)
next
  case False
  then have "nat (- e) = Suc (nat (- (e + 1)))" by simp
  then show ?thesis using False by (auto simp: pow2_def)
qed

lemma ilog2_bounds:
  assumes "0 < x"
  shows "pow2 (ilog2 x) \<le> x \<and> x < pow2 (ilog2 x + 1)"
proof (cases "1 \<le> x")
  case True
  define n where "n = \<lfloor>x\<rfloor>"
  have n: "1 \<le> n" "of_int n \<le> x" "x < of_int n + 1"
    using True unfolding n_def by linarith+
  then have "0 < n" by simp
  from bitlen_bounds[OF this] have b: "2 ^ nat (bitlen n - 1) \<le> n" "n < 2 ^ nat (bitlen n)"
    by simp_all
  have bl: "1 \<le> bitlen n" using \<open>0 < n\<close> by (simp add: bitlen_def floorlog_def)
  have e: "ilog2 x = bitlen n - 1" using True by (simp add: ilog2_def n_def)
  have "pow2 (bitlen n - 1) = of_int (2 ^ nat (bitlen n - 1))"
    using bl by (simp add: pow2_def)
  also have "\<dots> \<le> of_int n" using b(1) by (simp only: of_int_le_iff)
  finally have lo: "pow2 (ilog2 x) \<le> x" using n e by simp
  have "n + 1 \<le> 2 ^ nat (bitlen n)" using b(2) by simp
  then have "(of_int (n + 1) :: rat) \<le> of_int (2 ^ nat (bitlen n))" by (simp only: of_int_le_iff)
  then have "x < of_int (2 ^ nat (bitlen n))" using n by simp
  also have "\<dots> = pow2 (bitlen n)" using bl by (simp add: pow2_def)
  finally have "x < pow2 (ilog2 x + 1)" using e by simp
  with lo show ?thesis by simp
next
  case False
  define y where "y = 1 / x"
  define m where "m = \<lceil>y\<rceil> - 1"
  have y: "1 < y" using False assms by (simp add: y_def)
  have m: "of_int m < y" "y \<le> of_int m + 1" unfolding m_def by linarith+
  have "0 < m" using y m by linarith
  from bitlen_bounds[OF this] have b: "2 ^ nat (bitlen m - 1) \<le> m" "m < 2 ^ nat (bitlen m)"
    by simp_all
  have bl: "1 \<le> bitlen m" using \<open>0 < m\<close> by (simp add: bitlen_def floorlog_def)
  have e: "ilog2 x = - bitlen m" using False by (simp add: ilog2_def m_def y_def)
  have "m + 1 \<le> 2 ^ nat (bitlen m)" using b(2) by simp
  then have "(of_int (m + 1) :: rat) \<le> of_int (2 ^ nat (bitlen m))" by (simp only: of_int_le_iff)
  then have yle: "y \<le> 2 ^ nat (bitlen m)" using m by simp
  have "(2 :: rat) ^ nat (bitlen m - 1) \<le> of_int m"
    using b(1) of_int_le_iff [where ?'a = rat, of "2 ^ nat (bitlen m - 1)" m] by simp
  then have ygt: "2 ^ nat (bitlen m - 1) < y" using m by linarith
  have x: "x = 1 / y" by (simp add: y_def)
  have "pow2 (- bitlen m) = 1 / 2 ^ nat (bitlen m)" using bl by (simp add: pow2_def)
  also have "\<dots> \<le> 1 / y" using yle y by (simp add: frac_le)
  finally have lo: "pow2 (ilog2 x) \<le> x" using e x by simp
  have "1 / y < 1 / 2 ^ nat (bitlen m - 1)" using ygt by (simp add: frac_less2)
  also have "\<dots> = pow2 (- bitlen m + 1)"
  proof (cases "bitlen m = 1")
    case True
    then show ?thesis by (simp add: pow2_def)
  next
    case False
    with bl have "- bitlen m + 1 < 0" by simp
    then show ?thesis by (simp add: pow2_def)
  qed
  finally have "x < pow2 (ilog2 x + 1)" using e x by simp
  with lo show ?thesis by simp
qed

lemma fl_error:
  assumes "x \<noteq> 0"
  shows "\<bar>fl x - x\<bar> \<le> pow2 (max (ilog2 \<bar>x\<bar>) (- 1022) - 52) / 2"
proof -
  define e where "e = max (ilog2 \<bar>x\<bar>) (- 1022) - 52"
  have p: "0 < pow2 e" by (rule pow2_pos)
  have "fl x - x = (of_int (round_half_even (x / pow2 e)) - x / pow2 e) * pow2 e"
    using assms p by (simp add: fl_def e_def Let_def field_simps)
  then have "\<bar>fl x - x\<bar> = \<bar>of_int (round_half_even (x / pow2 e)) - x / pow2 e\<bar> * pow2 e"
    using p by (simp add: abs_mult)
  also have "\<dots> \<le> (1 / 2) * pow2 e"
    using round_half_even_bound [of "x / pow2 e"] p by (simp only: mult_right_mono less_imp_le)
  finally show ?thesis by (simp add: e_def)
qed

text \<open>The model on values known from Python: \<open>0.1\<close> is 3602879701896397 / 2 ^ 55,
  \<open>round(2.675, 2)\<close> is \<open>2.67\<close> and \<open>round(0.125, 2)\<close> is \<open>0.12\<close>.\<close>

lemma float_examples:
  "fl (1 / 10) = 3602879701896397 / 36028797018963968"
  "py_round (fl (2675 / 1000)) 2 = fl (267 / 100)"
  "py_round (1 / 8) 2 = fl (12 / 100)"
  by code_simp+

text \<open>
  C7. For every due date, return date and daily rate, the fine is 0 when the return date
  is on or before the due date; otherwise it is the float product of the days late and
  the rate, rounded to two decimals by \<open>round\<close>: the float nearest to a multiple of 0.01
  that lies within 0.005 of the product. \<open>Loan.calculate_fine\<close> is that function at the
  loan's due date. For due 2025-01-01, return 2025-01-20 and rate 0.25 the fine is 4.75.
\<close>

theorem overdue_fine_value:
  "(ret \<le> d \<longrightarrow> compute_overdue_fine d ret rate = 0)
   \<and> (d < ret \<longrightarrow>
        compute_overdue_fine d ret rate = py_round (float_mul (float_of_int (ret - d)) rate) 2
        \<and> (\<exists>k.
             compute_overdue_fine d ret rate = fl (of_int k / 100)
             \<and> \<bar>of_int k / 100 - float_mul (float_of_int (ret - d)) rate\<bar> \<le> 1 / 200))
   \<and> calculate_fine l ret rate = compute_overdue_fine (due l) ret rate
   \<and> compute_overdue_fine (ymd2ord 2025 1 1) (ymd2ord 2025 1 20) (1 / 4) = 19 / 4"
proof (intro conjI impI)
  assume "ret \<le> d"
  then show "compute_overdue_fine d ret rate = 0" by (simp add: compute_overdue_fine_def)
next
  assume l: "d < ret"
  then show v: "compute_overdue_fine d ret rate = py_round (float_mul (float_of_int (ret - d)) rate) 2"
    by (simp add: compute_overdue_fine_def)
  define p where "p = float_mul (float_of_int (ret - d)) rate"
  define k where "k = round_half_even (p * 100)"
  have "\<bar>of_int k - p * 100\<bar> \<le> 1 / 2"
    unfolding k_def by (rule round_half_even_bound)
  then have "\<bar>of_int k / 100 - p\<bar> \<le> 1 / 200"
    by (simp add: abs_le_iff field_simps)
  moreover have "compute_overdue_fine d ret rate = fl (of_int k / 100)"
    using v by (simp add: py_round_def k_def p_def)
  ultimately show "\<exists>k. compute_overdue_fine d ret rate = fl (of_int k / 100)
             \<and> \<bar>of_int k / 100 - float_mul (float_of_int (ret - d)) rate\<bar> \<le> 1 / 200"
    unfolding p_def by blast
next
  show "calculate_fine l ret rate = compute_overdue_fine (due l) ret rate"
    by (simp add: calculate_fine_def)
next
  show "compute_overdue_fine (ymd2ord 2025 1 1) (ymd2ord 2025 1 20) (1 / 4) = 19 / 4"
    by code_simp
qed

theorem overdue_fine_value_witness:
  "ymd2ord 2025 1 1 < ymd2ord 2025 1 20
   \<and> compute_overdue_fine (ymd2ord 2025 1 1) (ymd2ord 2025 1 20) (1 / 4)
       = py_round (float_mul (float_of_int 19) (1 / 4)) 2
   \<and> py_round (float_mul (float_of_int 19) (1 / 4)) 2 = 19 / 4
   \<and> compute_overdue_fine (ymd2ord 2025 1 20) (ymd2ord 2025 1 20) (1 / 4) = 0"
proof -
  have o: "ymd2ord 2025 1 1 < ymd2ord 2025 1 20" "ymd2ord 2025 1 20 - ymd2ord 2025 1 1 = 19"
    by (simp_all add: ymd2ord_def)
  have e: "py_round (float_mul (float_of_int 19) (1 / 4)) 2 = 19 / 4" by code_simp
  show ?thesis
    using o e overdue_fine_value [of "ymd2ord 2025 1 20" "ymd2ord 2025 1 1" "1 / 4"]
      overdue_fine_value [of "ymd2ord 2025 1 20" "ymd2ord 2025 1 20" "1 / 4"]
    by simp
qed

end
